theory Spec2Isabelle
  imports Complex_Main
begin

section \<open>Conventions of the embedding\<close>

text \<open>
  The JavaScript sources are embedded function by function. A class becomes a record of
  its fields, a method a function that takes the object and returns the updated object.
  A JavaScript \<open>number\<close> is a real; where the source stores \<open>POSITIVE_INFINITY\<close> in a
  variable the type \<open>number\<close> below is used, and a field that starts as \<open>NaN\<close> is a
  \<open>real option\<close> with \<open>None\<close> for \<open>NaN\<close>.

  A \<open>throw\<close> is a value of type \<open>error\<close>. A method that changes \<open>this\<close> before it
  throws returns the pair of the thrown error (if any) and the object as the throw left it.

  \<open>AbstractSubject.broadcast\<close> hands an event to the observers of a subject; the class
  is not among the sources. A broadcast is recorded in a log of the subject, in the order
  of the calls, and an observer among the sources that calls the subject again is run at
  that moment: the SimRunner, which observes its Clock (section Clock). BrachistoObserver,
  which observes a SimList, changes its display lists only. The other observers, and the
  other collaborators whose classes are not among the sources (Timer, ClockTask, LabCanvas,
  ErrorObserver, Memorizable), are known by the entries of a log: a call on one of them is
  an entry. \<open>UtilityCore.getSystemTime()\<close> is an input: every function that reads the system
  time takes it as the argument \<open>sysTime\<close>.

  Isabelle has no names that end in an underscore: the private field \<open>name_\<close> of the
  sources is the record field \<open>name'\<close>.
\<close>

datatype error = Error string | AssertionError | TypeError

datatype number = Num real | POSITIVE_INFINITY

text \<open>\<open>d < dist\<close> for a finite \<open>d\<close> and a \<open>dist\<close> that may be \<open>POSITIVE_INFINITY\<close>.\<close>

fun lessThanNumber :: "real \<Rightarrow> number \<Rightarrow> bool" where
  "lessThanNumber d (Num r) = (d < r)"
| "lessThanNumber d POSITIVE_INFINITY = True"

text \<open>\<open>expire < time\<close> for an \<open>expire\<close> that may be \<open>POSITIVE_INFINITY\<close>.\<close>

fun numberLessThan :: "number \<Rightarrow> real \<Rightarrow> bool" where
  "numberLessThan (Num r) t = (r < t)"
| "numberLessThan POSITIVE_INFINITY t = False"

fun isFinite :: "number \<Rightarrow> bool" where
  "isFinite (Num r) = True"
| "isFinite POSITIVE_INFINITY = False"


section \<open>Arrays\<close>

text \<open>
  The functions of \<open>goog.array\<close> (Closure Library) that the sources call, on lists:
  \<open>contains\<close>, \<open>find\<close> (the first element that satisfies \<open>f\<close>, or null), \<open>remove\<close>
  (removes the first occurrence of \<open>obj\<close> and returns whether there was one) and
  \<open>indexOf\<close> (the index of the first occurrence, or -1). Objects are compared by
  identity: an element of such a list is a reference to an object.
\<close>

definition goog_array_contains :: "'a list \<Rightarrow> 'a \<Rightarrow> bool" where
  "goog_array_contains arr obj = (obj \<in> set arr)"

definition goog_array_find :: "'a list \<Rightarrow> ('a \<Rightarrow> bool) \<Rightarrow> 'a option" where
  "goog_array_find arr f = List.find f arr"

definition goog_array_remove :: "'a list \<Rightarrow> 'a \<Rightarrow> bool \<times> 'a list" where
  "goog_array_remove arr obj = (obj \<in> set arr, remove1 obj arr)"



section \<open>Vectors, bodies and edges\<close>

text \<open>
  Modelled from the spec: the class Vector (lab/util/Vector.js) is not among the sources.
  A Vector is a point or a displacement of the plane with the coordinates \<open>getX\<close> and
  \<open>getY\<close>; \<open>add\<close>, \<open>subtract\<close>, \<open>multiply\<close> (by a factor) and \<open>lengthSquared\<close> work on the
  coordinates, so that \<open>pt.subtract(position)\<close> is the vector from \<open>position\<close> to \<open>pt\<close>
  (the spec: "vectors from each body's center of mass to the impact point").
  \<open>UtilEngine.square\<close> is the square of a number.
\<close>

record Vector =
  getX :: real
  getY :: real

definition Vector_new :: "real \<Rightarrow> real \<Rightarrow> Vector" where
  "Vector_new x y = \<lparr> getX = x, getY = y \<rparr>"

definition Vector_add :: "Vector \<Rightarrow> Vector \<Rightarrow> Vector" where
  "Vector_add a b = Vector_new (getX a + getX b) (getY a + getY b)"

definition Vector_subtract :: "Vector \<Rightarrow> Vector \<Rightarrow> Vector" where
  "Vector_subtract a b = Vector_new (getX a - getX b) (getY a - getY b)"

definition Vector_multiply :: "Vector \<Rightarrow> real \<Rightarrow> Vector" where
  "Vector_multiply a factor = Vector_new (factor * getX a) (factor * getY a)"



text \<open>
  The classes Vertex and Polygon are not among the sources. A Vertex is read through
  \<open>locBody()\<close> only. What an edge asks of its body is a field of the record \<open>Polygon\<close>:
  \<open>getPosition()\<close>, the transformations \<open>bodyToWorld\<close> and \<open>rotateBodyToWorld\<close>, the list
  \<open>getEdges_()\<close> of the body's edges (each named by \<open>edgeId\<close>), and the table of the edge
  centroids in world coordinates that \<open>getEdgeCentroidWorld(index)\<close> reads and
  \<open>setEdgeCentroidWorld(index, v)\<close> writes (\<open>None\<close> is null). \<open>bodyId\<close> is the identity of
  the body: \<open>body1 == body2\<close> of the sources compares references.
\<close>

record Vertex =
  locBody :: Vector

record Polygon =
  bodyId :: nat
  getPosition :: Vector
  bodyToWorld :: "Vector \<Rightarrow> Vector"
  rotateBodyToWorld :: "Vector \<Rightarrow> Vector"
  getEdges' :: "nat list"
  edgeCentroidWorld :: "int \<Rightarrow> Vector option"

text \<open>
  AbstractEdge (lab.engine2D.AbstractEdge, src/unnamed/part_002 from line 187). The abstract methods
  \<open>distanceToLine\<close>, \<open>getNormalBody\<close> and \<open>maxDistanceTo\<close>, which StraightEdge implements,
  are fields of the edge. \<open>centroidRadius_\<close> starts as \<open>NaN\<close>, which is \<open>None\<close>.
\<close>

record Edge =
  edgeId :: nat
  v1' :: Vertex
  v2' :: Vertex
  centroid_body' :: Vector
  centroidRadius' :: "real option"
  body' :: Polygon
  index' :: int
  distanceToLine :: "Vector \<Rightarrow> real"
  getNormalBody :: "Vector \<Rightarrow> Vector"
  maxDistanceTo :: "Vector \<Rightarrow> real"

definition AbstractEdge_new ::
  "nat \<Rightarrow> Polygon \<Rightarrow> Vertex \<Rightarrow> Vertex \<Rightarrow> (Vector \<Rightarrow> real) \<Rightarrow> (Vector \<Rightarrow> Vector) \<Rightarrow> (Vector \<Rightarrow> real)
     \<Rightarrow> Edge" where
  "AbstractEdge_new ident body vertex1 vertex2 distanceToLine_impl getNormalBody_impl
       maxDistanceTo_impl =
     \<lparr> edgeId = ident, v1' = vertex1, v2' = vertex2,
       centroid_body' = Vector_multiply (Vector_add (locBody vertex1) (locBody vertex2)) 0.5,
       centroidRadius' = None, body' = body, index' = -1,
       distanceToLine = distanceToLine_impl, getNormalBody = getNormalBody_impl,
       maxDistanceTo = maxDistanceTo_impl \<rparr>"

definition AbstractEdge_getBody :: "Edge \<Rightarrow> Polygon" where
  "AbstractEdge_getBody this = body' this"

definition AbstractEdge_getCentroidBody :: "Edge \<Rightarrow> Vector" where
  "AbstractEdge_getCentroidBody this = centroid_body' this"




definition AbstractEdge_getVertex1 :: "Edge \<Rightarrow> Vertex" where
  "AbstractEdge_getVertex1 this = v1' this"

definition AbstractEdge_getVertex2 :: "Edge \<Rightarrow> Vertex" where
  "AbstractEdge_getVertex2 this = v2' this"


definition AbstractEdge_setCentroidRadius :: "real option \<Rightarrow> Edge \<Rightarrow> Edge" where
  "AbstractEdge_setCentroidRadius v this = this\<lparr>centroidRadius' := v\<rparr>"

section \<open>StraightStraight (lab.engine2D.StraightStraight, src/unnamed/part_002)\<close>

text \<open>
  Modelled from the spec: the classes EdgeEdgeCollision and RigidBodyCollision are not among
  the sources. The record has the fields that StraightStraight assigns, and the two edges
  and their bodies, which the constructor \<open>new EdgeEdgeCollision(edge1, edge2)\<close> stores
  (the spec: a record "references the two interacting bodies/edges"; \<open>improveAccuracy\<close>
  asserts that the primary body is the body of \<open>edge1\<close> and the normal body that of
  \<open>edge2\<close>). \<open>normalVelocity\<close> and the detected time are \<open>None\<close> until they are set. The
  field \<open>creator\<close>, a label for debugging, is left out.
\<close>

record EdgeEdgeCollision =
  primaryEdge :: Edge
  normalEdge :: Edge
  primaryBody :: Polygon
  normalBody :: Polygon
  ballNormal :: bool
  ballObject :: bool
  radius1 :: number
  radius2 :: number
  distance :: number
  impact1 :: Vector
  r1 :: Vector
  r2 :: Vector
  normal :: Vector
  normalVelocity :: "real option"
  detectedTime' :: "real option"

text \<open>
  The functions of StraightStraight take the collaborators that are not among the sources
  as arguments: \<open>linesIntersect\<close> is \<open>UtilEngine.linesIntersect\<close>, \<open>calcNormalVelocity\<close> the
  method of the collision record, \<open>addCollision\<close> is \<open>UtilityCollision.addCollision\<close> and
  \<open>DISABLE_EDGE_EDGE\<close> the flag of UtilityCollision.
\<close>

definition StraightStraight_intersect ::
  "(Vector \<Rightarrow> Vector \<Rightarrow> Vector \<Rightarrow> Vector \<Rightarrow> Vector option) \<Rightarrow> Edge \<Rightarrow> Edge \<Rightarrow> Vector option" where
  "StraightStraight_intersect linesIntersect edge1 edge2 =
     (let body1 = AbstractEdge_getBody edge1;
          body2 = AbstractEdge_getBody edge2;
          e1v1 = AbstractEdge_getVertex1 edge1;
          e1v2 = AbstractEdge_getVertex2 edge1;
          e2v1 = AbstractEdge_getVertex1 edge2;
          e2v2 = AbstractEdge_getVertex2 edge2
      in linesIntersect (bodyToWorld body1 (locBody e1v1)) (bodyToWorld body1 (locBody e1v2))
           (bodyToWorld body2 (locBody e2v1)) (bodyToWorld body2 (locBody e2v2)))"

text \<open>
  \<open>improveAccuracy\<close> (lines 82-141). \<open>StraightStraight_improveAccuracy_nearer\<close> is the
  statement that the source repeats for each of the four endpoints (lines 107-112, 113-118,
  119-124, 125-130):
  \<open>d = edge.distanceToLine(v); if (d > 0 && d < dist) { e = edge; pt = v; dist = d; }\<close>
  on the variables \<open>(e, pt, dist)\<close>. \<open>StraightStraight_improveAccuracy_closest\<close> is lines
  99-130. As in the source, the endpoint handed to \<open>distanceToLine\<close> and to
  \<open>getNormalBody\<close> is in world coordinates. A failed \<open>goog.asserts.assert\<close> throws.
\<close>

definition StraightStraight_improveAccuracy_nearer ::
  "Edge \<Rightarrow> Vector \<Rightarrow> Edge option \<times> Vector option \<times> number
     \<Rightarrow> Edge option \<times> Vector option \<times> number" where
  "StraightStraight_improveAccuracy_nearer edge v state =
     (case state of (e, pt, closest) \<Rightarrow>
        let d = distanceToLine edge v
        in if d > 0 \<and> lessThanNumber d closest then (Some edge, Some v, Num d)
           else (e, pt, closest))"

definition StraightStraight_improveAccuracy_closest ::
  "Edge \<Rightarrow> Edge \<Rightarrow> Edge option \<times> Vector option \<times> number" where
  "StraightStraight_improveAccuracy_closest edge1 edge2 =
     (let dist = POSITIVE_INFINITY;
          body1 = AbstractEdge_getBody edge1;
          body2 = AbstractEdge_getBody edge2;
          e1v1 = bodyToWorld body1 (locBody (AbstractEdge_getVertex1 edge1));
          e1v2 = bodyToWorld body1 (locBody (AbstractEdge_getVertex2 edge1));
          e2v1 = bodyToWorld body2 (locBody (AbstractEdge_getVertex1 edge2));
          e2v2 = bodyToWorld body2 (locBody (AbstractEdge_getVertex2 edge2));
          e = None;
          pt = None;
          state = StraightStraight_improveAccuracy_nearer edge1 e2v1 (e, pt, dist);
          state = StraightStraight_improveAccuracy_nearer edge1 e2v2 state;
          state = StraightStraight_improveAccuracy_nearer edge2 e1v1 state;
          state = StraightStraight_improveAccuracy_nearer edge2 e1v2 state
      in state)"

definition StraightStraight_improveAccuracy ::
  "(Vector \<Rightarrow> Vector \<Rightarrow> Vector \<Rightarrow> Vector \<Rightarrow> Vector option) \<Rightarrow> EdgeEdgeCollision \<Rightarrow> Edge \<Rightarrow> Edge
     \<Rightarrow> error + EdgeEdgeCollision" where
  "StraightStraight_improveAccuracy linesIntersect rbc edge1 edge2 =
     (let edge1Body = AbstractEdge_getBody edge1;
          edge2Body = AbstractEdge_getBody edge2
      in if bodyId (primaryBody rbc) \<noteq> bodyId edge1Body then Inl AssertionError
         else if bodyId (normalBody rbc) \<noteq> bodyId edge2Body then Inl AssertionError
         else
           (case StraightStraight_intersect linesIntersect edge1 edge2 of
              Some pt \<Rightarrow>
                Inr (rbc\<lparr>impact1 := pt,
                         r1 := Vector_subtract pt (getPosition (AbstractEdge_getBody edge1)),
                         r2 := Vector_subtract pt (getPosition (AbstractEdge_getBody edge2)),
                         normal := rotateBodyToWorld (AbstractEdge_getBody edge2)
                                     (getNormalBody edge2 pt)\<rparr>)
            | None \<Rightarrow>
                (case StraightStraight_improveAccuracy_closest edge1 edge2 of
                   (Some e, Some pt, closest) \<Rightarrow>
                     Inr (rbc\<lparr>distance := closest,
                              impact1 := pt,
                              r1 := Vector_subtract pt (getPosition (AbstractEdge_getBody edge1)),
                              r2 := Vector_subtract pt (getPosition (AbstractEdge_getBody edge2)),
                              normal := rotateBodyToWorld (AbstractEdge_getBody e)
                                          (getNormalBody e pt)\<rparr>)
                 | _ \<Rightarrow> Inl (Error ''StraightStraight.improveAccuracy failed''))))"

text \<open>
  \<open>addCollision\<close> (lines 168-184) and \<open>testCollision\<close> (lines 151-158). The output to the
  console is left out.
\<close>

definition StraightStraight_addCollision ::
  "(EdgeEdgeCollision \<Rightarrow> real) \<Rightarrow> (EdgeEdgeCollision list \<Rightarrow> EdgeEdgeCollision \<Rightarrow> EdgeEdgeCollision list)
     \<Rightarrow> EdgeEdgeCollision list \<Rightarrow> Edge \<Rightarrow> Edge \<Rightarrow> Vector \<Rightarrow> real \<Rightarrow> EdgeEdgeCollision list" where
  "StraightStraight_addCollision calcNormalVelocity addCollision collisions edge1 edge2 pt time =
     (let rbc = \<lparr> primaryEdge = edge1, normalEdge = edge2,
                  primaryBody = AbstractEdge_getBody edge1,
                  normalBody = AbstractEdge_getBody edge2,
                  ballNormal = False, ballObject = False,
                  radius1 = POSITIVE_INFINITY, radius2 = POSITIVE_INFINITY,
                  distance = Num (- 0.1),
                  impact1 = pt,
                  r1 = Vector_subtract pt (getPosition (AbstractEdge_getBody edge1)),
                  r2 = Vector_subtract pt (getPosition (AbstractEdge_getBody edge2)),
                  normal = rotateBodyToWorld (AbstractEdge_getBody edge2) (getNormalBody edge2 pt),
                  normalVelocity = None, detectedTime' = None \<rparr>;
          rbc1 = rbc\<lparr>normalVelocity := Some (calcNormalVelocity rbc)\<rparr>;
          rbc2 = rbc1\<lparr>detectedTime' := Some time\<rparr>
      in addCollision collisions rbc2)"

definition StraightStraight_testCollision ::
  "bool \<Rightarrow> (Vector \<Rightarrow> Vector \<Rightarrow> Vector \<Rightarrow> Vector \<Rightarrow> Vector option) \<Rightarrow> (EdgeEdgeCollision \<Rightarrow> real)
     \<Rightarrow> (EdgeEdgeCollision list \<Rightarrow> EdgeEdgeCollision \<Rightarrow> EdgeEdgeCollision list)
     \<Rightarrow> EdgeEdgeCollision list \<Rightarrow> Edge \<Rightarrow> Edge \<Rightarrow> real \<Rightarrow> EdgeEdgeCollision list" where
  "StraightStraight_testCollision DISABLE_EDGE_EDGE linesIntersect calcNormalVelocity addCollision
       collisions edge1 edge2 time =
     (if DISABLE_EDGE_EDGE then collisions
      else
        (case StraightStraight_intersect linesIntersect edge1 edge2 of
           Some pt \<Rightarrow>
             StraightStraight_addCollision calcNormalVelocity addCollision collisions
               edge1 edge2 pt time
         | None \<Rightarrow> collisions))"


subsection \<open>The closest endpoint\<close>

text \<open>
  \<open>closestAmong S state\<close>: the variables \<open>(e, pt, dist)\<close> hold the first pair of an edge and
  an endpoint among \<open>S\<close> with the smallest positive distance, or are untouched when no pair
  of \<open>S\<close> has a positive distance.
\<close>

definition closestAmong ::
  "(Edge \<times> Vector) set \<Rightarrow> Edge option \<times> Vector option \<times> number \<Rightarrow> bool" where
  "closestAmong S state =
     ((state = (None, None, POSITIVE_INFINITY) \<and> (\<forall>(e, p) \<in> S. \<not> 0 < distanceToLine e p)) \<or>
      (\<exists>(e, p) \<in> S. state = (Some e, Some p, Num (distanceToLine e p)) \<and>
         0 < distanceToLine e p \<and>
         (\<forall>(e', p') \<in> S. 0 < distanceToLine e' p' \<longrightarrow> distanceToLine e p \<le> distanceToLine e' p')))"

lemma closestAmong_empty: "closestAmong {} (None, None, POSITIVE_INFINITY)"
  by (simp add: closestAmong_def)

lemma closestAmong_nearer:
  assumes "closestAmong S state"
  shows "closestAmong (insert (edge, v) S) (StraightStraight_improveAccuracy_nearer edge v state)"
proof -
  from assms consider
    (none) "state = (None, None, POSITIVE_INFINITY)" "\<forall>(e, p) \<in> S. \<not> 0 < distanceToLine e p"
  | (some) e p where "(e, p) \<in> S" "state = (Some e, Some p, Num (distanceToLine e p))"
      "0 < distanceToLine e p"
      "\<forall>(e', p') \<in> S. 0 < distanceToLine e' p' \<longrightarrow> distanceToLine e p \<le> distanceToLine e' p'"
    unfolding closestAmong_def by blast
  then show ?thesis
  proof cases
    case none
    then show ?thesis
      by (cases "0 < distanceToLine edge v")
        (auto simp: closestAmong_def StraightStraight_improveAccuracy_nearer_def)
  next
    case some
    show ?thesis
    proof (cases "0 < distanceToLine edge v \<and> distanceToLine edge v < distanceToLine e p")
      case True
      then have "StraightStraight_improveAccuracy_nearer edge v state
          = (Some edge, Some v, Num (distanceToLine edge v))"
        by (simp add: some(2) StraightStraight_improveAccuracy_nearer_def)
      moreover have "\<forall>(e', p') \<in> S. 0 < distanceToLine e' p' \<longrightarrow>
          distanceToLine edge v \<le> distanceToLine e' p'"
        using some(4) True by fastforce
      ultimately show ?thesis
        using True unfolding closestAmong_def by simp
    next
      case False
      then have "StraightStraight_improveAccuracy_nearer edge v state = state"
        by (auto simp: some(2) StraightStraight_improveAccuracy_nearer_def)
      moreover have "0 < distanceToLine edge v \<longrightarrow> distanceToLine e p \<le> distanceToLine edge v"
        using False by auto
      ultimately show ?thesis
        using some unfolding closestAmong_def by auto
    qed
  qed
qed

lemma closestAmong_closest:
  "closestAmong
     {(edge1, bodyToWorld (body' edge2) (locBody (v1' edge2))),
      (edge1, bodyToWorld (body' edge2) (locBody (v2' edge2))),
      (edge2, bodyToWorld (body' edge1) (locBody (v1' edge1))),
      (edge2, bodyToWorld (body' edge1) (locBody (v2' edge1)))}
     (StraightStraight_improveAccuracy_closest edge1 edge2)"
proof -
  let ?a = "(edge1, bodyToWorld (body' edge2) (locBody (v1' edge2)))"
  let ?b = "(edge1, bodyToWorld (body' edge2) (locBody (v2' edge2)))"
  let ?c = "(edge2, bodyToWorld (body' edge1) (locBody (v1' edge1)))"
  let ?d = "(edge2, bodyToWorld (body' edge1) (locBody (v2' edge1)))"
  have eq: "{?a, ?b, ?c, ?d} = insert ?d (insert ?c (insert ?b (insert ?a {})))"
    by blast
  show ?thesis
    unfolding eq StraightStraight_improveAccuracy_closest_def Let_def AbstractEdge_getBody_def
      AbstractEdge_getVertex1_def AbstractEdge_getVertex2_def
    by (intro closestAmong_nearer closestAmong_empty)
qed




text \<open>
  Claim C4. If the lines of the two edges do not intersect and none of the four endpoints
  has a positive \<open>distanceToLine\<close> from the other edge, \<open>improveAccuracy\<close> throws: the
  error 'StraightStraight.improveAccuracy failed' (or, when the record is not of these
  two edges, the failed assertion). It never returns a record.
\<close>

theorem StraightStraight_improveAccuracy_fails:
  assumes "StraightStraight_intersect linesIntersect edge1 edge2 = None"
    and "\<not> 0 < distanceToLine edge1 (bodyToWorld (body' edge2) (locBody (v1' edge2)))"
    and "\<not> 0 < distanceToLine edge1 (bodyToWorld (body' edge2) (locBody (v2' edge2)))"
    and "\<not> 0 < distanceToLine edge2 (bodyToWorld (body' edge1) (locBody (v1' edge1)))"
    and "\<not> 0 < distanceToLine edge2 (bodyToWorld (body' edge1) (locBody (v2' edge1)))"
  shows "StraightStraight_improveAccuracy linesIntersect rbc edge1 edge2 =
     Inl (if bodyId (primaryBody rbc) = bodyId (body' edge1) \<and>
             bodyId (normalBody rbc) = bodyId (body' edge2)
          then Error ''StraightStraight.improveAccuracy failed'' else AssertionError)"
proof -
  have "closestAmong
     {(edge1, bodyToWorld (body' edge2) (locBody (v1' edge2))),
      (edge1, bodyToWorld (body' edge2) (locBody (v2' edge2))),
      (edge2, bodyToWorld (body' edge1) (locBody (v1' edge1))),
      (edge2, bodyToWorld (body' edge1) (locBody (v2' edge1)))}
     (StraightStraight_improveAccuracy_closest edge1 edge2)"
    by (rule closestAmong_closest)
  with assms(2-5) have
    c: "StraightStraight_improveAccuracy_closest edge1 edge2 = (None, None, POSITIVE_INFINITY)"
    unfolding closestAmong_def by auto
  show ?thesis
    using assms(1) c
    by (simp add: StraightStraight_improveAccuracy_def AbstractEdge_getBody_def Let_def)
qed


section \<open>Collision of two straight edges\<close>

text \<open>
  Modelled from the spec: \<open>UtilEngine.linesIntersect\<close> (lab/engine2D/UtilEngine.js) is not
  among the sources. The spec: "Straight edges compute intersection via standard 2D
  line-segment intersection math", and "\<open>intersect\<close> returns a point lying within both
  segments' parameter range [0,1], and returns none for non-intersecting, non-collinear
  segments". The segments are \<open>p1 + t (p2 - p1)\<close> and \<open>p3 + u (p4 - p3)\<close>; \<open>denom\<close> is the
  cross product of their directions, zero for parallel segments, for which the spec
  promises no point.
\<close>

definition UtilEngine_linesIntersect :: "Vector \<Rightarrow> Vector \<Rightarrow> Vector \<Rightarrow> Vector \<Rightarrow> Vector option" where
  "UtilEngine_linesIntersect p1 p2 p3 p4 =
     (let x1 = getX p1; y1 = getY p1;
          x2 = getX p2; y2 = getY p2;
          x3 = getX p3; y3 = getY p3;
          x4 = getX p4; y4 = getY p4;
          denom = (x2 - x1) * (y4 - y3) - (y2 - y1) * (x4 - x3)
      in if denom = 0 then None
         else
           let t = ((x3 - x1) * (y4 - y3) - (y3 - y1) * (x4 - x3)) / denom;
               u = ((x3 - x1) * (y2 - y1) - (y3 - y1) * (x2 - x1)) / denom
           in if 0 \<le> t \<and> t \<le> 1 \<and> 0 \<le> u \<and> u \<le> 1
              then Some (Vector_new (x1 + t * (x2 - x1)) (y1 + t * (y2 - y1)))
              else None)"

text \<open>
  Modelled from the spec: \<open>UtilityCollision.addCollision\<close> (lab/engine2D/UtilityCollision.js)
  is not among the sources. The spec: "if found, record a collision candidate at that
  point"; the output of the detector is "an unordered list of Collision/Contact records".
\<close>

definition UtilityCollision_addCollision ::
  "EdgeEdgeCollision list \<Rightarrow> EdgeEdgeCollision \<Rightarrow> EdgeEdgeCollision list" where
  "UtilityCollision_addCollision collisions c = collisions @ [c]"









text \<open>
  Claim C6, as amended. When \<open>intersect\<close> finds no point, \<open>testCollision\<close> leaves
  \<open>collisions\<close> unchanged, however close the edges are: it makes no contact record.
\<close>

theorem StraightStraight_testCollision_no_contact:
  assumes "StraightStraight_intersect linesIntersect edge1 edge2 = None"
  shows "StraightStraight_testCollision DISABLE_EDGE_EDGE linesIntersect calcNormalVelocity
           addCollision collisions edge1 edge2 time = collisions"
  using assms by (simp add: StraightStraight_testCollision_def)

section \<open>The bounding circles of two edges\<close>















section \<open>Examples\<close>

text \<open>
  Bodies that are translated, not rotated, each with one straight edge: \<open>floorEdge\<close> from
  (0,0) to (4.5,0) with the normal (0,1); \<open>wallEdge\<close> from (5,1) to (5,3) with the normal
  (-1,0); \<open>sunkEdge\<close> from (5,-1) to (5,-3) with the normal (1,0); \<open>crossEdge\<close> from (1,-1)
  to (1,1), which crosses the floor in (1,0); \<open>nearEdge\<close> from (1,0.001) to (1,2), which
  ends 0.001 above the floor; \<open>ledgeEdge\<close> from (4.5,0) to (6,0), which continues the
  floor on the same line. \<open>distanceToLine\<close> of each edge takes the point in world
  coordinates, as \<open>improveAccuracy\<close> calls it. \<open>staleCollision\<close> is a collision record of two
  edges before its refinement.
\<close>

definition placedBody :: "nat \<Rightarrow> Vector \<Rightarrow> nat list \<Rightarrow> Polygon" where
  "placedBody ident offset edges =
     \<lparr> bodyId = ident, getPosition = offset, bodyToWorld = (\<lambda>p. Vector_add p offset),
       rotateBodyToWorld = (\<lambda>v. v), getEdges' = edges, edgeCentroidWorld = (\<lambda>i. None) \<rparr>"

definition floorEdge :: Edge where
  "floorEdge = AbstractEdge_new 10 (placedBody 1 (Vector_new 0 0) [10])
     \<lparr>locBody = Vector_new 0 0\<rparr> \<lparr>locBody = Vector_new (9/2) 0\<rparr>
     (\<lambda>p. getY p) (\<lambda>p. Vector_new 0 1) (\<lambda>p. max \<bar>getX p\<bar> \<bar>getX p - 9/2\<bar>)"

definition wallEdge :: Edge where
  "wallEdge = AbstractEdge_new 20 (placedBody 2 (Vector_new 5 2) [20])
     \<lparr>locBody = Vector_new 0 (-1)\<rparr> \<lparr>locBody = Vector_new 0 1\<rparr>
     (\<lambda>p. 5 - getX p) (\<lambda>p. Vector_new (-1) 0) (\<lambda>p. max \<bar>getY p + 1\<bar> \<bar>getY p - 1\<bar>)"

definition sunkEdge :: Edge where
  "sunkEdge = AbstractEdge_new 30 (placedBody 3 (Vector_new 5 (-2)) [30])
     \<lparr>locBody = Vector_new 0 1\<rparr> \<lparr>locBody = Vector_new 0 (-1)\<rparr>
     (\<lambda>p. getX p - 5) (\<lambda>p. Vector_new 1 0) (\<lambda>p. max \<bar>getY p + 1\<bar> \<bar>getY p - 1\<bar>)"

definition crossEdge :: Edge where
  "crossEdge = AbstractEdge_new 40 (placedBody 4 (Vector_new 1 0) [40])
     \<lparr>locBody = Vector_new 0 (-1)\<rparr> \<lparr>locBody = Vector_new 0 1\<rparr>
     (\<lambda>p. 1 - getX p) (\<lambda>p. Vector_new (-1) 0) (\<lambda>p. max \<bar>getY p + 1\<bar> \<bar>getY p - 1\<bar>)"

definition nearEdge :: Edge where
  "nearEdge = AbstractEdge_new 50 (placedBody 5 (Vector_new 1 1) [50])
     \<lparr>locBody = Vector_new 0 (-999/1000)\<rparr> \<lparr>locBody = Vector_new 0 1\<rparr>
     (\<lambda>p. 1 - getX p) (\<lambda>p. Vector_new (-1) 0) (\<lambda>p. max \<bar>getY p + 999/1000\<bar> \<bar>getY p - 1\<bar>)"


definition staleCollision :: "Edge \<Rightarrow> Edge \<Rightarrow> EdgeEdgeCollision" where
  "staleCollision edge1 edge2 =
     \<lparr> primaryEdge = edge1, normalEdge = edge2, primaryBody = body' edge1,
       normalBody = body' edge2, ballNormal = False, ballObject = False,
       radius1 = POSITIVE_INFINITY, radius2 = POSITIVE_INFINITY, distance = Num (- 0.1),
       impact1 = Vector_new 0 0, r1 = Vector_new 0 0, r2 = Vector_new 0 0,
       normal = Vector_new 0 1, normalVelocity = Some (-1), detectedTime' = Some 0 \<rparr>"

lemmas example_defs = placedBody_def floorEdge_def wallEdge_def sunkEdge_def crossEdge_def
  nearEdge_def staleCollision_def AbstractEdge_new_def Vector_new_def Vector_add_def
  Vector_subtract_def Vector_multiply_def

lemma floor_wall_apart:
  "StraightStraight_intersect UtilEngine_linesIntersect floorEdge wallEdge = None"
  by (simp add: StraightStraight_intersect_def UtilEngine_linesIntersect_def Let_def
      AbstractEdge_getBody_def AbstractEdge_getVertex1_def AbstractEdge_getVertex2_def
      example_defs)

lemma floor_sunk_apart:
  "StraightStraight_intersect UtilEngine_linesIntersect floorEdge sunkEdge = None"
  by (simp add: StraightStraight_intersect_def UtilEngine_linesIntersect_def Let_def
      AbstractEdge_getBody_def AbstractEdge_getVertex1_def AbstractEdge_getVertex2_def
      example_defs)

lemma floor_near_apart:
  "StraightStraight_intersect UtilEngine_linesIntersect floorEdge nearEdge = None"
  by (simp add: StraightStraight_intersect_def UtilEngine_linesIntersect_def Let_def
      AbstractEdge_getBody_def AbstractEdge_getVertex1_def AbstractEdge_getVertex2_def
      example_defs)

lemma floor_cross_meet:
  "StraightStraight_intersect UtilEngine_linesIntersect floorEdge crossEdge
     = Some (Vector_new 1 0)"
  by (simp add: StraightStraight_intersect_def UtilEngine_linesIntersect_def Let_def
      AbstractEdge_getBody_def AbstractEdge_getVertex1_def AbstractEdge_getVertex2_def
      example_defs)


theorem StraightStraight_improveAccuracy_fails_witness:
  "StraightStraight_improveAccuracy UtilEngine_linesIntersect
       (staleCollision floorEdge sunkEdge) floorEdge sunkEdge
     = Inl (Error ''StraightStraight.improveAccuracy failed'')"
  using StraightStraight_improveAccuracy_fails [OF floor_sunk_apart,
      of "staleCollision floorEdge sunkEdge"]
  by (simp add: example_defs)



theorem StraightStraight_testCollision_no_contact_witness:
  "StraightStraight_testCollision False UtilEngine_linesIntersect (\<lambda>rbc. - 1)
       UtilityCollision_addCollision [] floorEdge wallEdge 7 = []"
  using StraightStraight_testCollision_no_contact [OF floor_wall_apart] by simp

text \<open>
  Claim C6 as stated fails: \<open>nearEdge\<close> ends 0.001 above \<open>floorEdge\<close>, the lines do not
  intersect, and \<open>testCollision\<close> appends nothing.
\<close>

theorem StraightStraight_testCollision_contact_counterexample:
  "StraightStraight_intersect UtilEngine_linesIntersect floorEdge nearEdge = None \<and>
   distanceToLine floorEdge (bodyToWorld (body' nearEdge) (locBody (v1' nearEdge))) = 1/1000 \<and>
   StraightStraight_testCollision False UtilEngine_linesIntersect (\<lambda>rbc. - 1)
       UtilityCollision_addCollision [] floorEdge nearEdge 7 = []"
  by (simp add: floor_near_apart StraightStraight_testCollision_def) (simp add: example_defs)



section \<open>Clock (src/lab/util/Clock.js)\<close>

record ClockTask =
  taskId :: nat
  taskGetTime :: real

text \<open>
  The log of a Clock: a GenericEvent broadcast to the observers, and \<open>cancel()\<close> and
  \<open>schedule(delay)\<close> called on a ClockTask. The log also takes what the SimRunner that
  observes the Clock does to its own collaborators while it handles an event of the Clock:
  \<open>memorize()\<close>, which calls the Memorizables, and \<open>broadcastParameter(name)\<close>.
\<close>

datatype ClockEffect = Broadcast string | TaskCancel nat | TaskSchedule nat real
  | SimRunnerMemorize | SimRunnerBroadcastParameter string

record Clock =
  clockStart_sys_secs' :: real
  realStart_sys_secs' :: real
  timeRate' :: real
  saveTime_secs' :: real
  saveRealTime_secs' :: real
  isRunning' :: bool
  stepMode' :: bool
  tasks' :: "ClockTask list"
  clockEffects :: "ClockEffect list"

definition CLOCK_PAUSE :: string where "CLOCK_PAUSE = ''CLOCK_PAUSE''"
definition CLOCK_RESUME :: string where "CLOCK_RESUME = ''CLOCK_RESUME''"
definition CLOCK_SET_TIME :: string where "CLOCK_SET_TIME = ''CLOCK_SET_TIME''"
definition CLOCK_STEP :: string where "CLOCK_STEP = ''CLOCK_STEP''"

text \<open>\<open>SimRunner.en.RUNNING\<close>, the name of the parameter that a SimRunner broadcasts.\<close>

definition SimRunner_en_RUNNING :: string where "SimRunner_en_RUNNING = ''running''"

text \<open>The constructor (lines 138-189); the ParameterNumber it registers is left out.\<close>

definition Clock_new :: "real \<Rightarrow> Clock" where
  "Clock_new sysTime =
     \<lparr> clockStart_sys_secs' = sysTime, realStart_sys_secs' = sysTime, timeRate' = 1,
       saveTime_secs' = 0, saveRealTime_secs' = 0, isRunning' = False, stepMode' = False,
       tasks' = [], clockEffects = [] \<rparr>"

definition Clock_effect :: "ClockEffect \<Rightarrow> Clock \<Rightarrow> Clock" where
  "Clock_effect e c = c\<lparr>clockEffects := clockEffects c @ [e]\<rparr>"


definition Clock_cancelAllTasks :: "Clock \<Rightarrow> Clock" where
  "Clock_cancelAllTasks c =
     c\<lparr>clockEffects := clockEffects c @ map (\<lambda>task. TaskCancel (taskId task)) (tasks' c)\<rparr>"

text \<open>
  \<open>clockTime/this.timeRate_\<close>: for \<open>timeRate_ = 0\<close> JavaScript computes with infinities,
  HOL's quotient is 0. No statement below is about a quotient.
\<close>

definition Clock_clockToSystem :: "Clock \<Rightarrow> real \<Rightarrow> real" where
  "Clock_clockToSystem c clockTime = clockTime / timeRate' c + clockStart_sys_secs' c"

definition Clock_executeTasks :: "real \<Rightarrow> real \<Rightarrow> Clock \<Rightarrow> Clock" where
  "Clock_executeTasks startTime timeStep c =
     c\<lparr>clockEffects := clockEffects c @
         map (\<lambda>task. TaskSchedule (taskId task) 0)
           (filter (\<lambda>task. taskGetTime task \<ge> startTime \<and> taskGetTime task \<le> startTime + timeStep)
              (tasks' c))\<rparr>"

definition Clock_getRealTime :: "real \<Rightarrow> Clock \<Rightarrow> real" where
  "Clock_getRealTime sysTime c =
     (if isRunning' c then (sysTime - realStart_sys_secs' c) * timeRate' c
      else saveRealTime_secs' c)"

definition Clock_getTime :: "real \<Rightarrow> Clock \<Rightarrow> real" where
  "Clock_getTime sysTime c =
     (if isRunning' c then (sysTime - clockStart_sys_secs' c) * timeRate' c
      else saveTime_secs' c)"


definition Clock_isRunning :: "Clock \<Rightarrow> bool" where
  "Clock_isRunning c = isRunning' c"

definition Clock_isStepping :: "Clock \<Rightarrow> bool" where
  "Clock_isStepping c = stepMode' c"

definition Clock_scheduleTask :: "real \<Rightarrow> ClockTask \<Rightarrow> Clock \<Rightarrow> Clock" where
  "Clock_scheduleTask sysTime task c =
     (let c1 = c\<lparr>clockEffects := clockEffects c @ [TaskCancel (taskId task)]\<rparr> in
      if isRunning' c1 then
        let nowTime = Clock_clockToSystem c1 (Clock_getTime sysTime c1);
            taskTime = Clock_clockToSystem c1 (taskGetTime task)
        in if taskTime \<ge> nowTime
           then c1\<lparr>clockEffects := clockEffects c1 @ [TaskSchedule (taskId task) (taskTime - nowTime)]\<rparr>
           else c1
      else c1)"

definition Clock_setRealTime :: "real \<Rightarrow> real \<Rightarrow> Clock \<Rightarrow> Clock" where
  "Clock_setRealTime sysTime time_secs c =
     (if isRunning' c then c\<lparr>realStart_sys_secs' := sysTime - time_secs / timeRate' c\<rparr>
      else c\<lparr>saveRealTime_secs' := time_secs\<rparr>)"

definition Clock_setTimePrivate :: "real \<Rightarrow> real \<Rightarrow> Clock \<Rightarrow> Clock" where
  "Clock_setTimePrivate sysTime time_secs c =
     (if isRunning' c then
        let c1 = c\<lparr>clockStart_sys_secs' := sysTime - time_secs / timeRate' c\<rparr>
        in fold (Clock_scheduleTask sysTime) (tasks' c1) c1
      else c\<lparr>saveTime_secs' := time_secs\<rparr>)"

text \<open>
  The observers of a Clock. Among the sources the one class that observes a Clock is
  SimRunner: its constructor registers the SimRunner with the Clock it creates
  (SimRunner.js, line 165), and \<open>SimRunner.observe\<close> (lines 455-467) reacts to the events
  of that Clock only. The list of observers that AbstractSubject keeps for the Clock is
  the argument \<open>observers\<close> of the functions that broadcast; an observer is given as it is
  when the method is called. \<open>SimRunnerObserver t\<close> is the SimRunner whose \<open>clock_\<close> this
  Clock is: \<open>t\<close> is what \<open>this.advanceList_[0].getTime()\<close> gives, \<open>None\<close> when the list
  is empty, so that the call on \<open>undefined\<close> throws a TypeError. Observers of other classes
  see the events in the log.

  \<open>Clock_broadcast\<close> is \<open>broadcast(new GenericEvent(this, name))\<close>: it calls the observers
  in the order of the list (\<open>Clock_broadcast_for\<close>), and an exception of an observer leaves
  the broadcast. \<open>SimRunner_observe\<close> is \<open>SimRunner.observe\<close>: on CLOCK_RESUME and
  CLOCK_PAUSE it sets the clock time and the real time of the Clock to the simulation time,
  which calls \<open>Clock.setTime\<close> (lines 432-439), and that broadcasts CLOCK_SET_TIME to the
  observers again; on CLOCK_SET_TIME it memorizes. The four functions call each other, and
  end, because the broadcast inside \<open>observe\<close> is of CLOCK_SET_TIME, on which no observer
  calls the Clock.
\<close>

datatype ClockObserver = SimRunnerObserver "real option"

function Clock_broadcast ::
    "ClockObserver list \<Rightarrow> real \<Rightarrow> string \<Rightarrow> Clock \<Rightarrow> error option \<times> Clock"
  and Clock_broadcast_for ::
    "ClockObserver list \<Rightarrow> real \<Rightarrow> string \<Rightarrow> ClockObserver list \<Rightarrow> Clock \<Rightarrow> error option \<times> Clock"
  and SimRunner_observe ::
    "ClockObserver list \<Rightarrow> real \<Rightarrow> real option \<Rightarrow> string \<Rightarrow> Clock \<Rightarrow> error option \<times> Clock"
  and Clock_setTime ::
    "ClockObserver list \<Rightarrow> real \<Rightarrow> real \<Rightarrow> Clock \<Rightarrow> error option \<times> Clock"
where
  "Clock_broadcast observers sysTime name c =
     Clock_broadcast_for observers sysTime name observers (Clock_effect (Broadcast name) c)"
| "Clock_broadcast_for observers sysTime name [] c = (None, c)"
| "Clock_broadcast_for observers sysTime name (SimRunnerObserver simTime # rest) c =
     (case SimRunner_observe observers sysTime simTime name c of
        (Some ex, c1) \<Rightarrow> (Some ex, c1)
      | (None, c1) \<Rightarrow> Clock_broadcast_for observers sysTime name rest c1)"
| "SimRunner_observe observers sysTime simTime name c =
     (if name = CLOCK_RESUME \<or> name = CLOCK_PAUSE then
        (case simTime of
           None \<Rightarrow> (Some TypeError, c)
         | Some t \<Rightarrow>
             (case Clock_setTime observers sysTime t c of
                (Some ex, c1) \<Rightarrow> (Some ex, c1)
              | (None, c1) \<Rightarrow>
                  (None, Clock_effect (SimRunnerBroadcastParameter SimRunner_en_RUNNING)
                           (Clock_setRealTime sysTime t c1))))
      else if name = CLOCK_SET_TIME then (None, Clock_effect SimRunnerMemorize c)
      else (None, c))"
| "Clock_setTime observers sysTime time_secs c =
     Clock_broadcast observers sysTime CLOCK_SET_TIME (Clock_setTimePrivate sysTime time_secs c)"
  by pat_completeness auto
termination
proof (relation "measure (\<lambda>call. case call of
    Inl (Inl (observers, sysTime, name, c)) \<Rightarrow>
      (if name = CLOCK_RESUME \<or> name = CLOCK_PAUSE then length observers + 4 else 0)
        + length observers + 2
  | Inl (Inr (observers, sysTime, name, rest, c)) \<Rightarrow>
      (if name = CLOCK_RESUME \<or> name = CLOCK_PAUSE then length observers + 4 else 0)
        + length rest + 1
  | Inr (Inl (observers, sysTime, simTime, name, c)) \<Rightarrow>
      (if name = CLOCK_RESUME \<or> name = CLOCK_PAUSE then length observers + 4 else 0)
  | Inr (Inr (observers, sysTime, time_secs, c)) \<Rightarrow> length observers + 3)")
qed (simp_all add: CLOCK_SET_TIME_def CLOCK_RESUME_def CLOCK_PAUSE_def)

declare Clock_broadcast.simps [simp del] Clock_broadcast_for.simps [simp del]
  SimRunner_observe.simps [simp del] Clock_setTime.simps [simp del]

text \<open>
  \<open>pause\<close> (lines 363-373), \<open>resume\<close> (lines 387-397) and \<open>step\<close> (lines 484-497).
  \<open>goog.asserts.assertNumber(timeStep)\<close> holds by the type of \<open>timeStep\<close>. Each returns the
  exception that an observer throws (if any) and the Clock as the throw left it.
\<close>

definition Clock_pause :: "ClockObserver list \<Rightarrow> real \<Rightarrow> Clock \<Rightarrow> error option \<times> Clock" where
  "Clock_pause observers sysTime c =
     (if isRunning' c then
        let c1 = c\<lparr>saveTime_secs' := Clock_getTime sysTime c\<rparr>;
            c2 = c1\<lparr>saveRealTime_secs' := Clock_getRealTime sysTime c1\<rparr>;
            c3 = Clock_cancelAllTasks c2;
            c4 = c3\<lparr>isRunning' := False\<rparr>
        in Clock_broadcast observers sysTime CLOCK_PAUSE c4
      else (None, c))"

definition Clock_resume :: "ClockObserver list \<Rightarrow> real \<Rightarrow> Clock \<Rightarrow> error option \<times> Clock" where
  "Clock_resume observers sysTime c =
     (if \<not> isRunning' c then
        let c1 = c\<lparr>isRunning' := True\<rparr>;
            c2 = Clock_setTimePrivate sysTime (saveTime_secs' c1) c1;
            c3 = Clock_setRealTime sysTime (saveRealTime_secs' c2) c2
        in Clock_broadcast observers sysTime CLOCK_RESUME c3
      else (None, c))"

definition Clock_step ::
  "ClockObserver list \<Rightarrow> real \<Rightarrow> real \<Rightarrow> Clock \<Rightarrow> error option \<times> Clock" where
  "Clock_step observers sysTime timeStep c =
     (case Clock_pause observers sysTime c of
        (Some ex, c1) \<Rightarrow> (Some ex, c1)
      | (None, c1) \<Rightarrow>
          let c2 = c1\<lparr>stepMode' := True\<rparr>;
              startStepTime = saveTime_secs' c2;
              c3 = c2\<lparr>saveTime_secs' := saveTime_secs' c2 + timeStep\<rparr>;
              c4 = c3\<lparr>saveRealTime_secs' := saveRealTime_secs' c3 + timeStep\<rparr>
          in case Clock_broadcast observers sysTime CLOCK_STEP c4 of
               (Some ex, c5) \<Rightarrow> (Some ex, c5)
             | (None, c5) \<Rightarrow> (None, Clock_executeTasks startStepTime timeStep c5))"


subsection \<open>Events that leave the Clock as it is\<close>

text \<open>
  On an event other than CLOCK_RESUME and CLOCK_PAUSE no observer changes the Clock: the
  broadcast adds to the log only, and throws nothing.
\<close>

lemma Clock_broadcast_for_quiet:
  assumes "name \<noteq> CLOCK_RESUME" and "name \<noteq> CLOCK_PAUSE"
  shows "Clock_broadcast_for observers sysTime name rest c =
     (None, c\<lparr>clockEffects := clockEffects c @
        (if name = CLOCK_SET_TIME then replicate (length rest) SimRunnerMemorize else [])\<rparr>)"
proof (induction rest arbitrary: c)
  case Nil
  show ?case by (simp add: Clock_broadcast_for.simps)
next
  case (Cons obs rest)
  obtain simTime where obs: "obs = SimRunnerObserver simTime" by (cases obs)
  show ?case
  proof (cases "name = CLOCK_SET_TIME")
    case True
    with assms Cons.IH [of "Clock_effect SimRunnerMemorize c"] show ?thesis
      by (simp add: obs Clock_broadcast_for.simps SimRunner_observe.simps Clock_effect_def)
  next
    case False
    with assms Cons.IH [of c] show ?thesis
      by (simp add: obs Clock_broadcast_for.simps SimRunner_observe.simps)
  qed
qed

lemma Clock_broadcast_quiet:
  assumes "name \<noteq> CLOCK_RESUME" and "name \<noteq> CLOCK_PAUSE"
  shows "Clock_broadcast observers sysTime name c =
     (None, c\<lparr>clockEffects := clockEffects c @ Broadcast name #
        (if name = CLOCK_SET_TIME then replicate (length observers) SimRunnerMemorize else [])\<rparr>)"
  by (simp add: Clock_broadcast.simps Clock_broadcast_for_quiet [OF assms] Clock_effect_def)

lemma Clock_setTime_result:
  "Clock_setTime observers sysTime time_secs c =
     (None, (Clock_setTimePrivate sysTime time_secs c)
        \<lparr>clockEffects := clockEffects (Clock_setTimePrivate sysTime time_secs c) @
           Broadcast CLOCK_SET_TIME # replicate (length observers) SimRunnerMemorize\<rparr>)"
  by (simp add: Clock_setTime.simps Clock_broadcast_quiet CLOCK_SET_TIME_def CLOCK_RESUME_def
      CLOCK_PAUSE_def)


subsection \<open>Single step of a Clock\<close>

text \<open>
  The SimRunner that observes a paused Clock sets both saved times to the simulation time;
  after a broadcast of CLOCK_PAUSE the saved times are those of the last observer.
\<close>

lemma SimRunner_observe_paused:
  assumes "\<not> isRunning' c"
  shows "\<exists>c1. SimRunner_observe observers sysTime (Some t) CLOCK_PAUSE c = (None, c1) \<and>
           \<not> isRunning' c1 \<and> stepMode' c1 = stepMode' c \<and>
           saveTime_secs' c1 = t \<and> saveRealTime_secs' c1 = t"
  using assms
  by (simp add: SimRunner_observe.simps Clock_setTime_result Clock_setTimePrivate_def
      Clock_setRealTime_def Clock_effect_def)

lemma Clock_broadcast_for_paused:
  assumes "\<not> isRunning' c" and "SimRunnerObserver None \<notin> set rest"
  shows "\<exists>c1. Clock_broadcast_for observers sysTime CLOCK_PAUSE rest c = (None, c1) \<and>
           \<not> isRunning' c1 \<and> stepMode' c1 = stepMode' c \<and>
           saveTime_secs' c1 = (case last (SimRunnerObserver (Some (saveTime_secs' c)) # rest) of
                                  SimRunnerObserver t \<Rightarrow> the t) \<and>
           saveRealTime_secs' c1 = (case last (SimRunnerObserver (Some (saveRealTime_secs' c)) # rest) of
                                  SimRunnerObserver t \<Rightarrow> the t)"
  using assms
proof (induction rest arbitrary: c)
  case Nil
  then show ?case by (simp add: Clock_broadcast_for.simps)
next
  case (Cons obs rest)
  obtain simTime where "obs = SimRunnerObserver simTime" by (cases obs)
  with Cons.prems(2) obtain t where obs: "obs = SimRunnerObserver (Some t)"
    by (cases simTime) auto
  from SimRunner_observe_paused [OF Cons.prems(1), of observers sysTime t]
  obtain c1 where c1: "SimRunner_observe observers sysTime (Some t) CLOCK_PAUSE c = (None, c1)"
    "\<not> isRunning' c1" "stepMode' c1 = stepMode' c" "saveTime_secs' c1 = t"
    "saveRealTime_secs' c1 = t"
    by blast
  from Cons.prems(2) have "SimRunnerObserver None \<notin> set rest" by simp
  from Cons.IH [OF c1(2) this] c1 show ?case
    by (simp add: obs Clock_broadcast_for.simps)
qed


lemma Clock_broadcast_paused:
  assumes "\<not> isRunning' c" and "SimRunnerObserver None \<notin> set observers"
  shows "\<exists>c1. Clock_broadcast (observers @ [SimRunnerObserver (Some t)]) sysTime CLOCK_PAUSE c
             = (None, c1) \<and>
           \<not> isRunning' c1 \<and> stepMode' c1 = stepMode' c \<and>
           saveTime_secs' c1 = t \<and> saveRealTime_secs' c1 = t"
proof -
  let ?c = "Clock_effect (Broadcast CLOCK_PAUSE) c"
  have "\<not> isRunning' ?c" "SimRunnerObserver None \<notin> set (observers @ [SimRunnerObserver (Some t)])"
    using assms by (simp_all add: Clock_effect_def)
  from Clock_broadcast_for_paused [OF this, of "observers @ [SimRunnerObserver (Some t)]" sysTime]
  show ?thesis
    by (simp add: Clock_broadcast.simps Clock_effect_def)
qed

lemma Clock_step_paused:
  assumes "Clock_pause observers sysTime c = (None, c1)" and "\<not> isRunning' c1"
  shows "\<exists>c'. Clock_step observers sysTime timeStep c = (None, c') \<and>
           \<not> isRunning' c' \<and> stepMode' c' \<and>
           saveTime_secs' c' = saveTime_secs' c1 + timeStep \<and>
           saveRealTime_secs' c' = saveRealTime_secs' c1 + timeStep"
  using assms
  by (simp add: Clock_step_def Let_def Clock_broadcast_quiet CLOCK_STEP_def CLOCK_RESUME_def
      CLOCK_PAUSE_def CLOCK_SET_TIME_def Clock_executeTasks_def)

text \<open>
  Claim C10, as amended. After \<open>step(timeStep)\<close>, called at the system time \<open>sysTime\<close>:
  when the Clock was not running, or has no observer, \<open>step\<close> returns, \<open>isRunning()\<close> is
  false, \<open>isStepping()\<close> is true, and \<open>getTime()\<close>, read at any later system time \<open>later\<close>,
  is the value \<open>getTime()\<close> had at the call plus \<open>timeStep\<close>; likewise \<open>getRealTime()\<close>.
  When the Clock was running and is observed by SimRunners, each with a strategy and the
  last of them at the simulation time \<open>t\<close>, \<open>step\<close> returns, \<open>isRunning()\<close> is false,
  \<open>isStepping()\<close> is true, and \<open>getTime()\<close> and \<open>getRealTime()\<close> are \<open>t\<close> plus
  \<open>timeStep\<close>: on the CLOCK_PAUSE event that \<open>step\<close> broadcasts, \<open>observe\<close> has set the
  Clock to the simulation time.
\<close>

theorem Clock_step_advances:
  "(\<not> Clock_isRunning c \<or> observers = [] \<longrightarrow>
      (\<exists>c'. Clock_step observers sysTime timeStep c = (None, c') \<and>
            \<not> Clock_isRunning c' \<and> Clock_isStepping c' \<and>
            Clock_getTime later c' = Clock_getTime sysTime c + timeStep \<and>
            Clock_getRealTime later c' = Clock_getRealTime sysTime c + timeStep)) \<and>
   (Clock_isRunning c \<and> SimRunnerObserver None \<notin> set observers \<longrightarrow>
      (\<exists>c'. Clock_step (observers @ [SimRunnerObserver (Some t)]) sysTime timeStep c = (None, c') \<and>
            \<not> Clock_isRunning c' \<and> Clock_isStepping c' \<and>
            Clock_getTime later c' = t + timeStep \<and>
            Clock_getRealTime later c' = t + timeStep))"
proof (intro conjI impI)
  assume a: "\<not> Clock_isRunning c \<or> observers = []"
  have "\<exists>c1. Clock_pause observers sysTime c = (None, c1) \<and> \<not> isRunning' c1 \<and>
          saveTime_secs' c1 = Clock_getTime sysTime c \<and>
          saveRealTime_secs' c1 = Clock_getRealTime sysTime c"
  proof (cases "isRunning' c")
    case False
    then show ?thesis
      by (simp add: Clock_pause_def Clock_getTime_def Clock_getRealTime_def)
  next
    case True
    with a have "observers = []" by (simp add: Clock_isRunning_def)
    with True show ?thesis
      by (simp add: Clock_pause_def Let_def Clock_broadcast.simps Clock_broadcast_for.simps
          Clock_effect_def Clock_cancelAllTasks_def Clock_getTime_def Clock_getRealTime_def)
  qed
  then obtain c1 where c1: "Clock_pause observers sysTime c = (None, c1)" "\<not> isRunning' c1"
    "saveTime_secs' c1 = Clock_getTime sysTime c"
    "saveRealTime_secs' c1 = Clock_getRealTime sysTime c"
    by blast
  from Clock_step_paused [OF c1(1,2), of timeStep] c1(3,4)
  show "\<exists>c'. Clock_step observers sysTime timeStep c = (None, c') \<and>
            \<not> Clock_isRunning c' \<and> Clock_isStepping c' \<and>
            Clock_getTime later c' = Clock_getTime sysTime c + timeStep \<and>
            Clock_getRealTime later c' = Clock_getRealTime sysTime c + timeStep"
    by (auto simp: Clock_isRunning_def Clock_isStepping_def Clock_getTime_def [of later]
        Clock_getRealTime_def [of later])
next
  assume a: "Clock_isRunning c \<and> SimRunnerObserver None \<notin> set observers"
  let ?obs = "observers @ [SimRunnerObserver (Some t)]"
  let ?c4 = "(Clock_cancelAllTasks
      (c\<lparr>saveTime_secs' := Clock_getTime sysTime c,
         saveRealTime_secs' := Clock_getRealTime sysTime (c\<lparr>saveTime_secs' := Clock_getTime sysTime c\<rparr>)\<rparr>))
      \<lparr>isRunning' := False\<rparr>"
  have p: "Clock_pause ?obs sysTime c = Clock_broadcast ?obs sysTime CLOCK_PAUSE ?c4"
    using a by (simp add: Clock_pause_def Let_def Clock_isRunning_def)
  have "\<not> isRunning' ?c4" by simp
  from Clock_broadcast_paused [OF this conjunct2 [OF a], of t sysTime]
  obtain c1 where c1: "Clock_pause ?obs sysTime c = (None, c1)" "\<not> isRunning' c1"
    "saveTime_secs' c1 = t" "saveRealTime_secs' c1 = t"
    unfolding p by blast
  from Clock_step_paused [OF c1(1,2), of timeStep] c1(3,4)
  show "\<exists>c'. Clock_step ?obs sysTime timeStep c = (None, c') \<and>
            \<not> Clock_isRunning c' \<and> Clock_isStepping c' \<and>
            Clock_getTime later c' = t + timeStep \<and>
            Clock_getRealTime later c' = t + timeStep"
    by (auto simp: Clock_isRunning_def Clock_isStepping_def Clock_getTime_def [of later]
        Clock_getRealTime_def [of later])
qed

lemmas Clock_run_defs = Clock_step_def Clock_pause_def Clock_resume_def Clock_broadcast.simps
  Clock_broadcast_for.simps SimRunner_observe.simps Clock_setTime.simps Clock_setTimePrivate_def
  Clock_setRealTime_def Clock_effect_def Clock_cancelAllTasks_def Clock_executeTasks_def
  Clock_getTime_def Clock_getRealTime_def Clock_new_def Clock_isRunning_def Clock_isStepping_def
  CLOCK_PAUSE_def CLOCK_RESUME_def CLOCK_SET_TIME_def CLOCK_STEP_def Let_def

theorem Clock_step_advances_witness:
  "Clock_getTime 9 (snd (Clock_step [SimRunnerObserver (Some 3)] 7 (1/4) (Clock_new 2))) = 0 + 1/4 \<and>
   Clock_getTime 9 (snd (Clock_step [SimRunnerObserver (Some 3)] 7 (1/4)
                           (snd (Clock_resume [] 2 (Clock_new 2))))) = 3 + 1/4"
proof -
  have paused: "\<not> Clock_isRunning (Clock_new 2) \<or> [SimRunnerObserver (Some 3)] = []"
    by (simp add: Clock_isRunning_def Clock_new_def)
  have running: "Clock_isRunning (snd (Clock_resume [] 2 (Clock_new 2))) \<and>
      SimRunnerObserver None \<notin> set []"
    by (simp add: Clock_run_defs)
  from Clock_step_advances [of "Clock_new 2" "[SimRunnerObserver (Some 3)]" 7 "1/4" 9, THEN conjunct1]
    paused
  have a: "Clock_getTime 9 (snd (Clock_step [SimRunnerObserver (Some 3)] 7 (1/4) (Clock_new 2)))
      = Clock_getTime 7 (Clock_new 2) + 1/4"
    by auto
  from Clock_step_advances [of "snd (Clock_resume [] 2 (Clock_new 2))" "[]" 7 "1/4" 9 3,
      THEN conjunct2] running
  have b: "Clock_getTime 9 (snd (Clock_step [SimRunnerObserver (Some 3)] 7 (1/4)
                           (snd (Clock_resume [] 2 (Clock_new 2))))) = 3 + 1/4"
    by auto
  from a b show ?thesis
    by (simp add: Clock_getTime_def Clock_new_def)
qed

text \<open>
  Claim C10 as stated fails for the running Clock of a SimRunner: the Clock was resumed at
  the system time 2 and \<open>step(1/4)\<close> is called at the system time 7, so the clock time is
  5 at the call, while the simulation is at the time 0. After the step the clock time is
  \<open>1/4\<close>, not \<open>5 + 1/4\<close>.
\<close>

theorem Clock_step_advances_counterexample:
  "Clock_getTime 7 (snd (Clock_resume [SimRunnerObserver (Some 0)] 2 (Clock_new 2))) = 5 \<and>
   Clock_getTime 7 (snd (Clock_step [SimRunnerObserver (Some 0)] 7 (1/4)
                           (snd (Clock_resume [SimRunnerObserver (Some 0)] 2 (Clock_new 2))))) = 1/4"
  by (simp add: Clock_run_defs)



section \<open>SimList (src/lab/model/SimList.js)\<close>

text \<open>
  \<open>simListEvents\<close> is the log of the GenericEvents broadcast: the name of the event and the
  SimObject that is its value.
\<close>

record 'o SimList =
  elements' :: "'o list"
  tolerance' :: real
  simListEvents :: "(string \<times> 'o) list"

definition OBJECT_ADDED :: string where "OBJECT_ADDED = ''OBJECT_ADDED''"
definition OBJECT_REMOVED :: string where "OBJECT_REMOVED = ''OBJECT_REMOVED''"

definition SimList_new :: "'o SimList" where
  "SimList_new = \<lparr> elements' = [], tolerance' = 0.1, simListEvents = [] \<rparr>"

definition SimList_broadcast :: "string \<Rightarrow> 'o \<Rightarrow> 'o SimList \<Rightarrow> 'o SimList" where
  "SimList_broadcast name obj sl = sl\<lparr>simListEvents := simListEvents sl @ [(name, obj)]\<rparr>"

text \<open>
  The methods \<open>similar(simObj, tolerance)\<close> and \<open>getExpireTime()\<close> of SimObject belong to
  the classes that implement it; they are the arguments \<open>similar\<close> and \<open>getExpireTime\<close>.
\<close>

definition SimList_getSimilar ::
  "('o \<Rightarrow> 'o \<Rightarrow> real \<Rightarrow> bool) \<Rightarrow> 'o SimList \<Rightarrow> 'o \<Rightarrow> real option \<Rightarrow> 'o option" where
  "SimList_getSimilar similar sl simObj tolerance =
     (let tol = (case tolerance of None \<Rightarrow> tolerance' sl | Some t \<Rightarrow> t)
      in goog_array_find (elements' sl) (\<lambda>obj. similar obj simObj tol))"

definition SimList_remove :: "'o SimList \<Rightarrow> 'o \<Rightarrow> 'o SimList" where
  "SimList_remove sl simObj =
     (let (removed, arr) = goog_array_remove (elements' sl) simObj;
          sl1 = sl\<lparr>elements' := arr\<rparr>
      in if removed then SimList_broadcast OBJECT_REMOVED simObj sl1 else sl1)"

text \<open>
  The loop \<open>while (similar = this.getSimilar(element)) { this.remove(similar); }\<close> of
  \<open>add\<close> (lines 158-160). It ends: \<open>getSimilar\<close> returns an element of the list, so each
  round makes the list shorter.
\<close>

function SimList_add_while ::
  "('o \<Rightarrow> 'o \<Rightarrow> real \<Rightarrow> bool) \<Rightarrow> 'o \<Rightarrow> 'o SimList \<Rightarrow> 'o SimList" where
  "SimList_add_while similar element sl =
     (case SimList_getSimilar similar sl element None of
        None \<Rightarrow> sl
      | Some similar_obj \<Rightarrow> SimList_add_while similar element (SimList_remove sl similar_obj))"
  by pat_completeness auto
termination
proof (relation "measure (\<lambda>(similar, element, sl). length (elements' sl))")
  show "wf (measure (\<lambda>(similar, element, sl). length (elements' sl)))" by simp
next
  fix similar :: "'o \<Rightarrow> 'o \<Rightarrow> real \<Rightarrow> bool" and element :: 'o and sl :: "'o SimList" and x2 :: 'o
  assume "SimList_getSimilar similar sl element None = Some x2"
  then have "x2 \<in> set (elements' sl)"
    by (auto simp: SimList_getSimilar_def goog_array_find_def find_Some_iff)
  then have "length (remove1 x2 (elements' sl)) < length (elements' sl)"
    using length_pos_if_in_set [of x2 "elements' sl"] by (simp add: length_remove1)
  then show "((similar, element, SimList_remove sl x2), similar, element, sl)
        \<in> measure (\<lambda>(similar, element, sl). length (elements' sl))"
    by (simp add: SimList_remove_def goog_array_remove_def SimList_broadcast_def Let_def)
qed

declare SimList_add_while.simps [simp del]

text \<open>
  \<open>add\<close> (lines 148-167): the \<open>for\<close> loop over \<open>arguments\<close> is the recursion over the list
  of arguments; an argument that is null or undefined is \<open>None\<close>.
\<close>

fun SimList_add ::
  "('o \<Rightarrow> 'o \<Rightarrow> real \<Rightarrow> bool) \<Rightarrow> ('o \<Rightarrow> number) \<Rightarrow> 'o option list \<Rightarrow> 'o SimList
     \<Rightarrow> error option \<times> 'o SimList" where
  "SimList_add similar getExpireTime [] sl = (None, sl)"
| "SimList_add similar getExpireTime (argument # arguments) sl =
     (case argument of
        None \<Rightarrow> (Some (Error ''cannot add invalid SimObject''), sl)
      | Some element \<Rightarrow>
          let expire = getExpireTime element;
              sl1 = (if isFinite expire then SimList_add_while similar element sl else sl);
              sl2 = (if \<not> goog_array_contains (elements' sl1) element
                     then SimList_broadcast OBJECT_ADDED element
                            (sl1\<lparr>elements' := elements' sl1 @ [element]\<rparr>)
                     else sl1)
          in SimList_add similar getExpireTime arguments sl2)"

fun SimList_addAll ::
  "('o \<Rightarrow> 'o \<Rightarrow> real \<Rightarrow> bool) \<Rightarrow> ('o \<Rightarrow> number) \<Rightarrow> 'o option list \<Rightarrow> 'o SimList
     \<Rightarrow> error option \<times> 'o SimList" where
  "SimList_addAll similar getExpireTime [] sl = (None, sl)"
| "SimList_addAll similar getExpireTime (obj # objList) sl =
     (case SimList_add similar getExpireTime [obj] sl of
        (Some e, sl1) \<Rightarrow> (Some e, sl1)
      | (None, sl1) \<Rightarrow> SimList_addAll similar getExpireTime objList sl1)"

fun SimList_removeAll :: "'o list \<Rightarrow> 'o SimList \<Rightarrow> 'o SimList" where
  "SimList_removeAll [] sl = sl"
| "SimList_removeAll (obj # objList) sl = SimList_removeAll objList (SimList_remove sl obj)"

definition SimList_toArray :: "'o SimList \<Rightarrow> 'o list" where
  "SimList_toArray sl = elements' sl"

definition SimList_clear :: "'o SimList \<Rightarrow> 'o SimList" where
  "SimList_clear sl = SimList_removeAll (SimList_toArray sl) sl"

text \<open>
  \<open>removeTemporary\<close> (lines 345-353): the loop variable \<open>i\<close> runs from \<open>length - 1\<close>
  down to 0; the counter of the recursion is \<open>i + 1\<close>. Reading \<open>this.elements_[i]\<close> beyond
  the end gives \<open>undefined\<close>, and the call of \<open>getExpireTime\<close> on it throws a TypeError.
\<close>

fun SimList_removeTemporary_for ::
  "('o \<Rightarrow> number) \<Rightarrow> real \<Rightarrow> nat \<Rightarrow> 'o SimList \<Rightarrow> error option \<times> 'o SimList" where
  "SimList_removeTemporary_for getExpireTime time 0 sl = (None, sl)"
| "SimList_removeTemporary_for getExpireTime time (Suc i) sl =
     (if i < length (elements' sl) then
        let simobj = elements' sl ! i in
        if numberLessThan (getExpireTime simobj) time then
          SimList_removeTemporary_for getExpireTime time i
            (SimList_broadcast OBJECT_REMOVED simobj
               (sl\<lparr>elements' := take i (elements' sl) @ drop (Suc i) (elements' sl)\<rparr>))
        else SimList_removeTemporary_for getExpireTime time i sl
      else (Some TypeError, sl))"

definition SimList_removeTemporary ::
  "('o \<Rightarrow> number) \<Rightarrow> real \<Rightarrow> 'o SimList \<Rightarrow> error option \<times> 'o SimList" where
  "SimList_removeTemporary getExpireTime time sl =
     SimList_removeTemporary_for getExpireTime time (length (elements' sl)) sl"

text \<open>
  A call of one of the methods that change the list, and the list after a sequence of
  calls. \<open>SimList_call\<close> gives the list as the call leaves it, also when the call throws.
\<close>

datatype 'o SimListCall =
  Add "'o option list" | AddAll "'o option list" | Remove 'o | RemoveAll "'o list"
  | RemoveTemporary real | Clear

fun SimList_call ::
  "('o \<Rightarrow> 'o \<Rightarrow> real \<Rightarrow> bool) \<Rightarrow> ('o \<Rightarrow> number) \<Rightarrow> 'o SimListCall \<Rightarrow> 'o SimList \<Rightarrow> 'o SimList" where
  "SimList_call similar getExpireTime (Add arguments) sl = snd (SimList_add similar getExpireTime arguments sl)"
| "SimList_call similar getExpireTime (AddAll objList) sl = snd (SimList_addAll similar getExpireTime objList sl)"
| "SimList_call similar getExpireTime (Remove simObj) sl = SimList_remove sl simObj"
| "SimList_call similar getExpireTime (RemoveAll objList) sl = SimList_removeAll objList sl"
| "SimList_call similar getExpireTime (RemoveTemporary time) sl = snd (SimList_removeTemporary getExpireTime time sl)"
| "SimList_call similar getExpireTime Clear sl = SimList_clear sl"

definition SimList_calls ::
  "('o \<Rightarrow> 'o \<Rightarrow> real \<Rightarrow> bool) \<Rightarrow> ('o \<Rightarrow> number) \<Rightarrow> 'o SimListCall list \<Rightarrow> 'o SimList \<Rightarrow> 'o SimList" where
  "SimList_calls similar getExpireTime calls sl = fold (SimList_call similar getExpireTime) calls sl"

subsection \<open>The similar objects removed by add\<close>

lemma find_remove1_filter:
  "List.find P xs = Some y \<Longrightarrow>
     filter (\<lambda>x. \<not> P x) (remove1 y xs) = filter (\<lambda>x. \<not> P x) xs \<and>
     filter P xs = y # filter P (remove1 y xs)"
proof (induction xs)
  case Nil
  then show ?case by simp
next
  case (Cons x xs)
  show ?case
  proof (cases "P x")
    case True
    with Cons.prems show ?thesis by simp
  next
    case False
    with Cons.prems have f: "List.find P xs = Some y" by simp
    then have "P y" by (auto simp: find_Some_iff)
    with False have "x \<noteq> y" by auto
    with Cons.IH [OF f] False show ?thesis by simp
  qed
qed

lemma SimList_add_while_result:
  "SimList_add_while similar element sl =
     sl\<lparr>elements' := filter (\<lambda>obj. \<not> similar obj element (tolerance' sl)) (elements' sl),
        simListEvents := simListEvents sl @
          map (Pair OBJECT_REMOVED) (filter (\<lambda>obj. similar obj element (tolerance' sl)) (elements' sl))\<rparr>"
proof (induction similar element sl rule: SimList_add_while.induct)
  case (1 similar element sl)
  let ?P = "\<lambda>obj. similar obj element (tolerance' sl)"
  show ?case
  proof (cases "List.find ?P (elements' sl)")
    case None
    then have "\<forall>x \<in> set (elements' sl). \<not> ?P x" by (simp add: find_None_iff)
    then have "filter (\<lambda>obj. \<not> ?P obj) (elements' sl) = elements' sl" "filter ?P (elements' sl) = []"
      by (auto simp: filter_empty_conv)
    with None show ?thesis
      by (subst SimList_add_while.simps) (simp add: SimList_getSimilar_def goog_array_find_def)
  next
    case (Some y)
    then have g: "SimList_getSimilar similar sl element None = Some y"
      by (simp add: SimList_getSimilar_def goog_array_find_def)
    have mem: "y \<in> set (elements' sl)" using Some by (auto simp: find_Some_iff)
    have r: "SimList_remove sl y = sl\<lparr>elements' := remove1 y (elements' sl),
        simListEvents := simListEvents sl @ [(OBJECT_REMOVED, y)]\<rparr>"
      using mem by (simp add: SimList_remove_def goog_array_remove_def SimList_broadcast_def)
    note fr = find_remove1_filter [OF Some]
    have "SimList_add_while similar element sl
            = SimList_add_while similar element (SimList_remove sl y)"
      by (subst SimList_add_while.simps) (simp add: g)
    also note "1.IH" [OF g]
    finally show ?thesis by (simp add: r fr)
  qed
qed


subsection \<open>No duplicates\<close>

lemma SimList_remove_result:
  "SimList_remove sl simObj =
     (if simObj \<in> set (elements' sl)
      then sl\<lparr>elements' := remove1 simObj (elements' sl),
              simListEvents := simListEvents sl @ [(OBJECT_REMOVED, simObj)]\<rparr>
      else sl)"
  by (simp add: SimList_remove_def goog_array_remove_def SimList_broadcast_def remove1_idem)

lemma SimList_add_single:
  "SimList_add similar getExpireTime [Some element] sl =
     (let sl1 = (if isFinite (getExpireTime element)
                 then SimList_add_while similar element sl else sl)
      in (None, if element \<in> set (elements' sl1) then sl1
                else sl1\<lparr>elements' := elements' sl1 @ [element],
                         simListEvents := simListEvents sl1 @ [(OBJECT_ADDED, element)]\<rparr>))"
  by (simp add: Let_def goog_array_contains_def SimList_broadcast_def)

lemma distinct_SimList_remove:
  "distinct (elements' sl) \<Longrightarrow> distinct (elements' (SimList_remove sl simObj))"
  by (simp add: SimList_remove_result)

lemma distinct_SimList_add:
  "distinct (elements' sl) \<Longrightarrow>
     distinct (elements' (snd (SimList_add similar getExpireTime arguments sl)))"
proof (induction arguments arbitrary: sl)
  case Nil
  then show ?case by simp
next
  case (Cons argument arguments)
  show ?case
  proof (cases argument)
    case None
    with Cons.prems show ?thesis by simp
  next
    case (Some element)
    let ?sl1 = "if isFinite (getExpireTime element)
                then SimList_add_while similar element sl else sl"
    let ?sl2 = "if \<not> goog_array_contains (elements' ?sl1) element
                then SimList_broadcast OBJECT_ADDED element
                       (?sl1\<lparr>elements' := elements' ?sl1 @ [element]\<rparr>)
                else ?sl1"
    have eq: "SimList_add similar getExpireTime (argument # arguments) sl
                = SimList_add similar getExpireTime arguments ?sl2"
      by (simp add: Some Let_def)
    have "distinct (elements' ?sl1)"
      using Cons.prems by (simp add: SimList_add_while_result)
    then have "distinct (elements' ?sl2)"
      by (simp add: goog_array_contains_def SimList_broadcast_def)
    then have "distinct (elements' (snd (SimList_add similar getExpireTime arguments ?sl2)))"
      by (rule Cons.IH)
    then show ?thesis
      unfolding eq .
  qed
qed

lemma distinct_SimList_addAll:
  "distinct (elements' sl) \<Longrightarrow>
     distinct (elements' (snd (SimList_addAll similar getExpireTime objList sl)))"
proof (induction objList arbitrary: sl)
  case Nil
  then show ?case by simp
next
  case (Cons obj objList)
  obtain e sl1 where a: "SimList_add similar getExpireTime [obj] sl = (e, sl1)"
    by (cases "SimList_add similar getExpireTime [obj] sl")
  have d: "distinct (elements' sl1)"
    using distinct_SimList_add [OF Cons.prems, of similar getExpireTime "[obj]"] a by simp
  show ?case
  proof (cases e)
    case None
    with a Cons.IH [OF d] show ?thesis by simp
  next
    case (Some err)
    with a d show ?thesis by simp
  qed
qed

lemma distinct_SimList_removeAll:
  "distinct (elements' sl) \<Longrightarrow> distinct (elements' (SimList_removeAll objList sl))"
  by (induction objList arbitrary: sl) (simp_all add: distinct_SimList_remove)

lemma distinct_splice:
  "distinct xs \<Longrightarrow> distinct (take i xs @ drop (Suc i) xs)"
  using set_take_disj_set_drop_if_distinct [of xs i "Suc i"] by simp

lemma distinct_SimList_removeTemporary_for:
  "distinct (elements' sl) \<Longrightarrow>
     distinct (elements' (snd (SimList_removeTemporary_for getExpireTime time i sl)))"
proof (induction i arbitrary: sl)
  case 0
  then show ?case by simp
next
  case (Suc i)
  let ?spliced = "SimList_broadcast OBJECT_REMOVED (elements' sl ! i)
               (sl\<lparr>elements' := take i (elements' sl) @ drop (Suc i) (elements' sl)\<rparr>)"
  have "elements' ?spliced = take i (elements' sl) @ drop (Suc i) (elements' sl)"
    by (simp add: SimList_broadcast_def)
  then have "distinct (elements' ?spliced)"
    using distinct_splice [OF Suc.prems, of i] by simp
  from Suc.IH [OF this] Suc.IH [OF Suc.prems] Suc.prems show ?case
    by (simp add: Let_def)
qed

lemma SimList_removeTemporary_for_returns:
  "i \<le> length (elements' sl) \<Longrightarrow>
     fst (SimList_removeTemporary_for getExpireTime time i sl) = None"
  by (induction i arbitrary: sl) (simp_all add: Let_def SimList_broadcast_def)

lemma distinct_SimList_call:
  "distinct (elements' sl) \<Longrightarrow> distinct (elements' (SimList_call similar getExpireTime call sl))"
  by (cases call)
    (simp_all add: distinct_SimList_add distinct_SimList_addAll distinct_SimList_remove
      distinct_SimList_removeAll distinct_SimList_removeTemporary_for
      SimList_removeTemporary_def SimList_clear_def)

lemma distinct_SimList_calls:
  "distinct (elements' sl) \<Longrightarrow> distinct (elements' (SimList_calls similar getExpireTime calls sl))"
  unfolding SimList_calls_def
  by (induction calls arbitrary: sl) (simp_all add: distinct_SimList_call)





text \<open>
  Claim C9. After every sequence of calls of add, addAll, remove, removeAll,
  removeTemporary (and clear) on a new SimList, no SimObject occurs twice in the list.
  \<open>remove\<close> broadcasts OBJECT_REMOVED exactly when the object was in the list, and
  \<open>add(element)\<close> pushes \<open>element\<close> and broadcasts OBJECT_ADDED exactly when the list
  (after the removal of the similar objects, for a finite expiration time) does not contain
  \<open>element\<close>.
\<close>

theorem SimList_never_duplicates:
  "distinct (elements' (SimList_calls similar getExpireTime calls SimList_new)) \<and>
   simListEvents (SimList_remove sl simObj) = simListEvents sl @
     (if simObj \<in> set (elements' sl) then [(OBJECT_REMOVED, simObj)] else []) \<and>
   SimList_add similar getExpireTime [Some element] sl =
     (let sl1 = (if isFinite (getExpireTime element)
                 then SimList_add_while similar element sl else sl)
      in (None, if element \<in> set (elements' sl1) then sl1
                else sl1\<lparr>elements' := elements' sl1 @ [element],
                         simListEvents := simListEvents sl1 @ [(OBJECT_ADDED, element)]\<rparr>))"
proof -
  have "distinct (elements' (SimList_new :: 'a SimList))" by (simp add: SimList_new_def)
  then have "distinct (elements' (SimList_calls similar getExpireTime calls SimList_new))"
    by (rule distinct_SimList_calls)
  moreover have "simListEvents (SimList_remove sl simObj) = simListEvents sl @
     (if simObj \<in> set (elements' sl) then [(OBJECT_REMOVED, simObj)] else [])"
    by (simp add: SimList_remove_result)
  ultimately show ?thesis
    using SimList_add_single [of similar getExpireTime element sl] by blast
qed

theorem SimList_never_duplicates_witness:
  "elements' (SimList_calls (\<lambda>a b tol. a = b) (\<lambda>obj. POSITIVE_INFINITY)
      [Add [Some (1::nat), Some 2, Some 1], AddAll [Some 2, Some 3], Remove 2, Remove 7,
       RemoveTemporary 4] SimList_new) = [1, 3]"
  using SimList_never_duplicates [of "\<lambda>a b tol. a = b" "\<lambda>obj. POSITIVE_INFINITY"
      "[Add [Some (1::nat), Some 2, Some 1], AddAll [Some 2, Some 3], Remove 2, Remove 7,
       RemoveTemporary 4]"]
  by (simp add: SimList_calls_def SimList_new_def goog_array_contains_def SimList_broadcast_def
      SimList_remove_result SimList_removeTemporary_def)


section \<open>SimRunner (src/lab/app/SimRunner.js)\<close>

text \<open>
  What a SimRunner does to its collaborators: the calls \<open>callBackStarted()\<close>,
  \<open>fireAfter(delay)\<close> (\<open>None\<close> when called without a delay) and \<open>finishAt(time)\<close> on its
  Timer, \<open>paint()\<close> on a LabCanvas, \<open>notifyError(error)\<close> on an ErrorObserver, and the
  \<open>alert\<close> shown to the user. A LabCanvas and an ErrorObserver are named by a number.
  The output to the console under \<open>goog.DEBUG\<close> is left out.
\<close>

datatype SimRunnerEffect =
    TimerCallBackStarted | TimerFireAfter "real option" | TimerFinishAt real
  | Paint nat | NotifyError nat error | Alert error

text \<open>
  The state of an AdvanceStrategy (with its Simulation) is a value of the type \<open>'s\<close>. Its
  methods belong to the classes that implement it; they are the arguments \<open>advance\<close>, which
  returns the error it throws (if any) and the state it leaves, and \<open>getTime\<close>. The
  field \<open>memorizables_\<close> of a SimRunner is read by \<open>memorize()\<close> only, which is an entry of
  the log of the Clock; \<open>debugTiming_\<close> is not read by the functions below, and the Timer
  is known by the calls made on it.
\<close>

record 's SimRunner =
  advanceList' :: "'s list"
  timeStep' :: real
  displayPeriod' :: real
  clock' :: Clock
  canvasList' :: "nat list"
  errorObservers' :: "nat list"
  simRunnerEffects :: "SimRunnerEffect list"


text \<open>
  The \<open>while\<close> loop of \<open>advanceSims\<close> (lines 276-293), with its variable \<open>simTime\<close>. The
  loop ends: a round that does not throw raises \<open>simTime\<close> by more than \<open>1e-15\<close>.
\<close>

function SimRunner_advanceSims_while ::
  "(real \<Rightarrow> 's \<Rightarrow> error option \<times> 's) \<Rightarrow> ('s \<Rightarrow> real) \<Rightarrow> real \<Rightarrow> real \<Rightarrow> real \<Rightarrow> 's
     \<Rightarrow> error option \<times> 's" where
  "SimRunner_advanceSims_while advance getTime timeStep targetTime simTime strategy =
     (if simTime < targetTime then
        (case advance timeStep strategy of
           (Some ex, strategy1) \<Rightarrow> (Some ex, strategy1)
         | (None, strategy1) \<Rightarrow>
             let lastSimTime = simTime;
                 simTime1 = getTime strategy1
             in if simTime1 - lastSimTime \<le> 1 / 10 ^ 15
                then (Some (Error ''SimRunner time did not advance''), strategy1)
                else SimRunner_advanceSims_while advance getTime timeStep targetTime
                       simTime1 strategy1)
      else (None, strategy))"
  by pat_completeness auto
termination
proof (relation "measure (\<lambda>(advance, getTime, timeStep, targetTime, simTime, strategy).
          nat \<lceil>(targetTime - simTime) * 10 ^ 15\<rceil>)")
  show "wf (measure (\<lambda>(advance, getTime, timeStep, targetTime, simTime, strategy).
          nat \<lceil>(targetTime - simTime) * 10 ^ 15\<rceil>))"
    by simp
next
  fix advance :: "real \<Rightarrow> 's \<Rightarrow> error option \<times> 's" and getTime :: "'s \<Rightarrow> real"
    and timeStep targetTime simTime :: real and strategy :: 's
    and x :: "error option \<times> 's" and x1 :: "error option" and strategy1 :: 's
    and lastSimTime simTime1 :: real
  assume lt: "simTime < targetTime"
    and "lastSimTime = simTime" and "simTime1 = getTime strategy1"
    and "\<not> simTime1 - lastSimTime \<le> 1 / 10 ^ 15"
  then have step: "simTime + 1 / 10 ^ 15 < getTime strategy1" by simp
  let ?a = "(targetTime - simTime) * 10 ^ 15"
  let ?b = "(targetTime - getTime strategy1) * 10 ^ 15"
  have "?b < ?a - 1" using step by (simp add: field_simps)
  then have "\<lceil>?b\<rceil> \<le> \<lceil>?a - 1\<rceil>" by (intro ceiling_mono) simp
  then have le: "\<lceil>?b\<rceil> \<le> \<lceil>?a\<rceil> - 1" by simp
  have "0 < ?a" using lt by simp
  then have "0 < \<lceil>?a\<rceil>" by (simp add: ceiling_less_iff [symmetric] less_ceiling_iff)
  with le have "nat \<lceil>?b\<rceil> < nat \<lceil>?a\<rceil>" by linarith
  then show "((advance, getTime, timeStep, targetTime, simTime1, strategy1),
         advance, getTime, timeStep, targetTime, simTime, strategy)
        \<in> measure (\<lambda>(advance, getTime, timeStep, targetTime, simTime, strategy).
          nat \<lceil>(targetTime - simTime) * 10 ^ 15\<rceil>)"
    using \<open>simTime1 = getTime strategy1\<close> by simp
qed

declare SimRunner_advanceSims_while.simps [simp del]

















subsection \<open>Time that does not advance\<close>


text \<open>
  When \<open>advanceSims\<close> returns without an error the simulation has reached the target time.
\<close>

lemma SimRunner_advanceSims_while_reaches:
  "SimRunner_advanceSims_while advance getTime timeStep targetTime simTime strategy
       = (None, strategy') \<Longrightarrow> simTime = getTime strategy \<Longrightarrow> targetTime \<le> getTime strategy'"
proof (induction advance getTime timeStep targetTime simTime strategy
    rule: SimRunner_advanceSims_while.induct)
  case (1 advance getTime timeStep targetTime simTime strategy)
  show ?case
  proof (cases "simTime < targetTime")
    case False
    with "1.prems" show ?thesis
      by (subst (asm) SimRunner_advanceSims_while.simps) simp
  next
    case True
    obtain thrown strategy1 where a: "advance timeStep strategy = (thrown, strategy1)"
      by (cases "advance timeStep strategy")
    from "1.prems"(1) True a have none: "thrown = None"
      by (subst (asm) SimRunner_advanceSims_while.simps) (auto split: option.splits)
    from "1.prems"(1) True a none have
      prog: "\<not> getTime strategy1 - simTime \<le> 1 / 10 ^ 15"
      and rec: "SimRunner_advanceSims_while advance getTime timeStep targetTime
                  (getTime strategy1) strategy1 = (None, strategy')"
      by (subst (asm) SimRunner_advanceSims_while.simps, simp add: Let_def split: if_splits)+
    show ?thesis
      by (rule "1.IH" [OF True a [symmetric] none refl refl prog rec refl])
  qed
qed



subsection \<open>Exceptions while the simulation advances\<close>
















end
